theory Spec2Isabelle
  imports Complex_Main "HOL-Library.Sublist"
begin

section \<open>JavaScript values\<close>

text \<open>
  The library is dynamically typed JavaScript (\<^verbatim>\<open>lib/index.js\<close>), so the values that
  reach it are modelled as a datatype of JavaScript values. A number is an IEEE double:
  every finite double is a rational (\<^verbatim>\<open>-0\<close> and \<^verbatim>\<open>0\<close> are both \<open>Fin 0\<close>, they
  behave alike wherever the library looks at a number), and the three non-finite doubles
  are constructors of their own. An absent property or an omitted argument reads as
  \<open>JUndefined\<close>, as in JavaScript. Strings are lists of bytes (UTF-8).
\<close>

datatype jsnum = Fin rat | NaN | PosInf | NegInf

datatype jsval =
    JUndefined
  | JNull
  | JBool bool
  | JNum jsnum
  | JStr string
  | JArr "jsval list"
  | JObj "(string \<times> jsval) list"

text \<open>ToBoolean: what \<^verbatim>\<open>!x\<close>, \<^verbatim>\<open>x || y\<close>, \<^verbatim>\<open>x ? a : b\<close> and \<^verbatim>\<open>if (x)\<close> test.\<close>

primrec truthy :: "jsval \<Rightarrow> bool" where
  "truthy JUndefined = False"
| "truthy JNull = False"
| "truthy (JBool b) = b"
| "truthy (JNum n) = (n \<noteq> Fin 0 \<and> n \<noteq> NaN)"
| "truthy (JStr s) = (s \<noteq> [])"
| "truthy (JArr xs) = True"
| "truthy (JObj kvs) = True"

text \<open>\<^verbatim>\<open>a || b\<close> on values: the left operand when it is truthy, else the right one.\<close>

definition js_or :: "jsval \<Rightarrow> jsval \<Rightarrow> jsval" where
  "js_or a b = (if truthy a then a else b)"

text \<open>
  A default parameter (\<^verbatim>\<open>wait = true\<close>, \<^verbatim>\<open>cdrom = false\<close>, \<^verbatim>\<open>delay = 0\<close>) takes its
  default when the argument is omitted or is \<^verbatim>\<open>undefined\<close>, and only then.
\<close>

definition param_default :: "jsval \<Rightarrow> jsval \<Rightarrow> jsval" where
  "param_default arg d = (if arg = JUndefined then d else arg)"

text \<open>An \<^verbatim>\<open>Error\<close> object, by its message.\<close>

datatype js_error = Error string

primrec message :: "js_error \<Rightarrow> string" where
  "message (Error m) = m"

section \<open>The runtime and the remote device\<close>

text \<open>
  An HTTP request as the client hands it to \<^verbatim>\<open>http.request\<close> / \<^verbatim>\<open>https.request\<close>:
  the options object (its \<^verbatim>\<open>method\<close> property is the field \<open>http_method\<close>), the module
  chosen, and what \<^verbatim>\<open>req.write\<close> was given.
\<close>

record request_options =
  hostname :: jsval
  port :: jsval
  path :: string
  http_method :: string
  headers :: "(string \<times> string) list"
  rejectUnauthorized :: jsval

record http_request =
  options :: request_options
  tls :: bool
  written :: "string list"

text \<open>
  What comes back: an \<^verbatim>\<open>'error'\<close> event with its error object, or a response with a
  status code and the chunks of its body, in the order of the \<^verbatim>\<open>'data'\<close> events.
\<close>

datatype reply = NetError js_error | Response nat "string list"

text \<open>
  The built-ins of the JavaScript runtime that the library calls and the device it talks
  to are parameters of the model: \<^verbatim>\<open>JSON.parse\<close> (\<open>None\<close> when it throws),
  \<^verbatim>\<open>JSON.stringify\<close>, the string conversion of a value that is not a string,
  \<^verbatim>\<open>Buffer.from(s).toString('base64')\<close>, and the device's answer to a request.
\<close>

record platform =
  JSON_parse :: "string \<Rightarrow> jsval option"
  JSON_stringify :: "jsval \<Rightarrow> string"
  ToString :: "jsval \<Rightarrow> string"
  base64 :: "string \<Rightarrow> string"
  remote :: "http_request \<Rightarrow> reply"

text \<open>String conversion in a template literal: a string is itself.\<close>

definition js_to_string :: "platform \<Rightarrow> jsval \<Rightarrow> string" where
  "js_to_string P v = (case v of JStr s \<Rightarrow> s | _ \<Rightarrow> ToString P v)"

text \<open>The decimal digits of a status code, as \<^verbatim>\<open>${res.statusCode}\<close> prints an integer.\<close>

definition digit_char :: "nat \<Rightarrow> char" where
  "digit_char n = char_of (48 + n)"

function string_of_nat :: "nat \<Rightarrow> string" where
  "string_of_nat n =
     (if n < 10 then [digit_char n] else string_of_nat (n div 10) @ [digit_char (n mod 10)])"
  by pat_completeness auto
termination
  by (relation "measure id") auto

declare string_of_nat.simps [simp del]

subsection \<open>encodeURIComponent\<close>





section \<open>The client (lib/index.js)\<close>

definition ATXButton_POWER :: string where "ATXButton_POWER = ''power''"
definition ATXButton_RESET :: string where "ATXButton_RESET = ''reset''"

text \<open>The configuration object given to the constructor; an absent property is \<open>JUndefined\<close>.\<close>

record config_arg =
  arg_host :: jsval
  arg_port :: jsval
  arg_secure :: jsval
  arg_username :: jsval
  arg_password :: jsval
  arg_rejectUnauthorized :: jsval

text \<open>\<^verbatim>\<open>this.config\<close> and the client object.\<close>

record client_config =
  cfg_host :: jsval
  cfg_port :: jsval
  cfg_secure :: bool
  cfg_username :: jsval
  cfg_password :: jsval
  cfg_rejectUnauthorized :: jsval

record PiKVMClient =
  config :: client_config
  authHeader :: string

text \<open>
  The requests handed to the transport so far, oldest first: the only trace of network
  activity. Every operation of the client takes the trace and returns it with what it added.
\<close>

type_synonym wire = "http_request list"

text \<open>A promise, settled: rejected with an error or resolved with a value.\<close>

type_synonym outcome = "js_error + jsval"

text \<open>
  The constructor. It throws (the \<open>Inl\<close> result) when a required property is falsy;
  otherwise it fills in the defaults and computes the Basic-Auth header once.
\<close>

definition PiKVMClient_new :: "platform \<Rightarrow> config_arg \<Rightarrow> wire \<Rightarrow> (js_error + PiKVMClient) \<times> wire" where
  "PiKVMClient_new P cfg w =
     (if \<not> truthy (arg_host cfg) \<or> \<not> truthy (arg_username cfg) \<or> \<not> truthy (arg_password cfg)
      then (Inl (Error ''host, username, and password are required''), w)
      else
        let conf = \<lparr> cfg_host = arg_host cfg,
                     cfg_port = js_or (arg_port cfg)
                                  (if arg_secure cfg \<noteq> JBool False then JNum (Fin 443) else JNum (Fin 80)),
                     cfg_secure = (arg_secure cfg \<noteq> JBool False),
                     cfg_username = arg_username cfg,
                     cfg_password = arg_password cfg,
                     cfg_rejectUnauthorized = js_or (arg_rejectUnauthorized cfg) (JBool False) \<rparr>;
            auth = base64 P (js_to_string P (cfg_username conf) @ '':'' @ js_to_string P (cfg_password conf))
        in (Inr \<lparr> config = conf, authHeader = ''Basic '' @ auth \<rparr>, w))"

subsection \<open>request\<close>

text \<open>The request that \<^verbatim>\<open>request(method, path, body)\<close> builds and sends.\<close>

definition make_request :: "platform \<Rightarrow> PiKVMClient \<Rightarrow> string \<Rightarrow> string \<Rightarrow> jsval \<Rightarrow> http_request" where
  "make_request P c m p body =
     \<lparr> options = \<lparr> hostname = cfg_host (config c),
                   port = cfg_port (config c),
                   path = p,
                   http_method = m,
                   headers = [(''Authorization'', authHeader c), (''Content-Type'', ''application/json'')],
                   rejectUnauthorized = cfg_rejectUnauthorized (config c) \<rparr>,
       tls = cfg_secure (config c),
       written = (if truthy body then [JSON_stringify P body] else []) \<rparr>"

text \<open>The \<^verbatim>\<open>'end'\<close> handler: decode the response.\<close>

definition on_end :: "platform \<Rightarrow> nat \<Rightarrow> string \<Rightarrow> outcome" where
  "on_end P statusCode data =
     (if 200 \<le> statusCode \<and> statusCode < 300 then
        (if data \<noteq> [] then
           (case JSON_parse P data of
              Some parsed \<Rightarrow> Inr parsed
            | None \<Rightarrow> Inr (JStr data))
         else Inr (JObj []))
      else Inl (Error (''HTTP '' @ string_of_nat statusCode @ '': '' @ data)))"

text \<open>The promise settles on the \<^verbatim>\<open>'error'\<close> event or at the end of the response.\<close>

definition settle :: "platform \<Rightarrow> reply \<Rightarrow> outcome" where
  "settle P r =
     (case r of
        NetError e \<Rightarrow> Inl e
      | Response statusCode chunks \<Rightarrow> on_end P statusCode (foldl (@) [] chunks))"

definition request :: "platform \<Rightarrow> PiKVMClient \<Rightarrow> string \<Rightarrow> string \<Rightarrow> jsval \<Rightarrow> wire \<Rightarrow> outcome \<times> wire" where
  "request P c m p body w =
     (let req = make_request P c m p body
      in (settle P (remote P req), w @ [req]))"

subsection \<open>The endpoint wrappers\<close>



definition clickATXButton :: "platform \<Rightarrow> PiKVMClient \<Rightarrow> jsval \<Rightarrow> jsval \<Rightarrow> wire \<Rightarrow> outcome \<times> wire" where
  "clickATXButton P c button wait_arg w =
     (let wait = param_default wait_arg (JBool True)
      in request P c ''POST''
           (''/api/atx/click?button='' @ js_to_string P button @ ''&wait='' @
              (if truthy wait then ''1'' else ''0''))
           (JObj []) w)"

definition powerOn :: "platform \<Rightarrow> PiKVMClient \<Rightarrow> wire \<Rightarrow> outcome \<times> wire" where
  "powerOn P c w = clickATXButton P c (JStr ATXButton_POWER) JUndefined w"

definition powerOff :: "platform \<Rightarrow> PiKVMClient \<Rightarrow> wire \<Rightarrow> outcome \<times> wire" where
  "powerOff P c w = clickATXButton P c (JStr ATXButton_POWER) JUndefined w"


definition reset :: "platform \<Rightarrow> PiKVMClient \<Rightarrow> wire \<Rightarrow> outcome \<times> wire" where
  "reset P c w = clickATXButton P c (JStr ATXButton_RESET) JUndefined w"













section \<open>The TypeScript source\<close>

text \<open>
  The repository also holds a TypeScript class of the same name. It has the same wrappers
  and one method more: \<^verbatim>\<open>writeMSDImage\<close>, an \<^verbatim>\<open>async\<close> method whose body is a single
  \<^verbatim>\<open>throw\<close>, so its promise is rejected and neither argument is looked at.
\<close>

text \<open>
  The TypeScript constructor fills in the same defaults and computes the same header, but
  has no check of the required properties: it never throws.
\<close>

definition PiKVMClient_new_ts :: "platform \<Rightarrow> config_arg \<Rightarrow> wire \<Rightarrow> (js_error + PiKVMClient) \<times> wire" where
  "PiKVMClient_new_ts P cfg w =
     (let conf = \<lparr> cfg_host = arg_host cfg,
                  cfg_port = js_or (arg_port cfg)
                               (if arg_secure cfg \<noteq> JBool False then JNum (Fin 443) else JNum (Fin 80)),
                  cfg_secure = (arg_secure cfg \<noteq> JBool False),
                  cfg_username = arg_username cfg,
                  cfg_password = arg_password cfg,
                  cfg_rejectUnauthorized = js_or (arg_rejectUnauthorized cfg) (JBool False) \<rparr>;
          auth = base64 P (js_to_string P (cfg_username conf) @ '':'' @ js_to_string P (cfg_password conf))
      in (Inr \<lparr> config = conf, authHeader = ''Basic '' @ auth \<rparr>, w))"

definition writeMSDImage :: "platform \<Rightarrow> PiKVMClient \<Rightarrow> jsval \<Rightarrow> jsval \<Rightarrow> wire \<Rightarrow> outcome \<times> wire" where
  "writeMSDImage P c img data w =
     (Inl (Error ''MSD image upload not implemented - use HTTP multipart/form-data directly''), w)"

section \<open>Reading the trace\<close>

text \<open>Method, path (with its query string) and written body of a request.\<close>

definition descriptor :: "http_request \<Rightarrow> string \<times> string \<times> string list" where
  "descriptor r = (http_method (options r), path (options r), written r)"

text \<open>
  \<open>issues_one w res m p b\<close>: the operation that started on trace \<open>w\<close> and returned
  \<open>res\<close> left the old trace as it was and added exactly one request, with method \<open>m\<close>,
  path \<open>p\<close> and written body \<open>b\<close>.
\<close>

definition issues_one :: "wire \<Rightarrow> 'a \<times> wire \<Rightarrow> string \<Rightarrow> string \<Rightarrow> string list \<Rightarrow> bool" where
  "issues_one w res m p b =
     (take (length w) (snd res) = w \<and>
      map descriptor (drop (length w) (snd res)) = [(m, p, b)])"

text \<open>
  A stand-in for the test suite's stubbed transport, used to run the model on concrete
  inputs: the device answers every request with the given reply; the parser knows the
  documents \<^verbatim>\<open>{}\<close> and \<^verbatim>\<open>[]\<close> and rejects everything else; the other built-ins are identities or
  constants.
\<close>

definition stub_platform :: "reply \<Rightarrow> platform" where
  "stub_platform r =
     \<lparr> JSON_parse = (\<lambda>s. if s = ''{}'' then Some (JObj [])
                         else if s = ''[]'' then Some (JArr []) else None),
       JSON_stringify = (\<lambda>v. if v = JObj [] then ''{}'' else ''?''),
       ToString = (\<lambda>v. ''?''),
       base64 = (\<lambda>s. s),
       remote = (\<lambda>q. r) \<rparr>"

definition stub_config :: config_arg where
  "stub_config =
     \<lparr> arg_host = JStr ''pikvm.local'', arg_port = JUndefined, arg_secure = JBool True,
       arg_username = JStr ''admin'', arg_password = JStr ''admin'',
       arg_rejectUnauthorized = JBool False \<rparr>"

definition stub_client :: PiKVMClient where
  "stub_client =
     \<lparr> config = \<lparr> cfg_host = JStr ''pikvm.local'', cfg_port = JNum (Fin 443), cfg_secure = True,
                  cfg_username = JStr ''admin'', cfg_password = JStr ''admin'',
                  cfg_rejectUnauthorized = JBool False \<rparr>,
       authHeader = ''Basic admin:admin'' \<rparr>"

text \<open>The port a construction stored, if it built a client.\<close>

definition effective_port :: "(js_error + PiKVMClient) \<times> wire \<Rightarrow> jsval option" where
  "effective_port res = (case fst res of Inl e \<Rightarrow> None | Inr cl \<Rightarrow> Some (cfg_port (config cl)))"




section \<open>Properties\<close>

subsection \<open>What a request puts on the wire\<close>


lemma request_wire: "snd (request P c m p b w) = w @ [make_request P c m p b]"
  by (simp add: request_def Let_def)


lemma issues_one_request:
  "issues_one w (request P c m p b w) m p (if truthy b then [JSON_stringify P b] else [])"
  by (simp add: issues_one_def request_def Let_def descriptor_def make_request_def)


lemma issues_one_obj: "issues_one w (request P c m p (JObj kvs) w) m p [JSON_stringify P (JObj kvs)]"
  using issues_one_request [of w P c m p "JObj kvs"] by simp

lemma issues_one_click:
  "issues_one w (clickATXButton P c button wait w) ''POST''
     (''/api/atx/click?button='' @ js_to_string P button @ ''&wait='' @
        (if wait = JUndefined \<or> truthy wait then ''1'' else ''0''))
     [JSON_stringify P (JObj [])]"
  unfolding clickATXButton_def Let_def param_default_def
  using issues_one_obj by (cases "wait = JUndefined") simp_all








subsection \<open>What the constructor returns\<close>

lemma constructor_throws:
  "\<not> truthy (arg_host cfg) \<or> \<not> truthy (arg_username cfg) \<or> \<not> truthy (arg_password cfg) \<Longrightarrow>
   PiKVMClient_new P cfg w = (Inl (Error ''host, username, and password are required''), w)"
  unfolding PiKVMClient_new_def by (simp only: if_True)

lemma constructor_builds:
  "truthy (arg_host cfg) \<Longrightarrow> truthy (arg_username cfg) \<Longrightarrow> truthy (arg_password cfg) \<Longrightarrow>
   PiKVMClient_new P cfg w =
     (Inr \<lparr> config =
             \<lparr> cfg_host = arg_host cfg,
               cfg_port = (if truthy (arg_port cfg) then arg_port cfg
                           else if arg_secure cfg \<noteq> JBool False then JNum (Fin 443) else JNum (Fin 80)),
               cfg_secure = (arg_secure cfg \<noteq> JBool False),
               cfg_username = arg_username cfg,
               cfg_password = arg_password cfg,
               cfg_rejectUnauthorized =
                 (if truthy (arg_rejectUnauthorized cfg) then arg_rejectUnauthorized cfg else JBool False) \<rparr>,
            authHeader = ''Basic '' @
              base64 P (js_to_string P (arg_username cfg) @ '':'' @ js_to_string P (arg_password cfg)) \<rparr>,
      w)"
  unfolding PiKVMClient_new_def by (simp add: Let_def js_or_def)

text \<open>
  The constructor of the TypeScript source accepts what the JavaScript one refuses.
\<close>

lemma ts_constructor_never_throws: "\<exists>cl. PiKVMClient_new_ts P cfg w = (Inr cl, w)"
  by (simp add: PiKVMClient_new_ts_def Let_def)

subsection \<open>Percent-encoding\<close>














subsection \<open>The endpoint table\<close>



subsection \<open>Decoding the response\<close>





subsection \<open>Construction\<close>

text \<open>
  Claim C4. Construction of the client of \<^verbatim>\<open>lib/index.js\<close> throws, at once and with no
  request on the wire, whenever host, username or password is absent or the empty string;
  and when all three are non-empty strings it returns a client, again with no request on
  the wire.
\<close>

theorem constructor_requires_credentials:
  "(arg_host cfg = JUndefined \<or> arg_host cfg = JStr [] \<or>
    arg_username cfg = JUndefined \<or> arg_username cfg = JStr [] \<or>
    arg_password cfg = JUndefined \<or> arg_password cfg = JStr []
      \<longrightarrow> PiKVMClient_new P cfg w =
            (Inl (Error ''host, username, and password are required''), w)) \<and>
   ((\<exists>h u pw. arg_host cfg = JStr h \<and> h \<noteq> [] \<and> arg_username cfg = JStr u \<and> u \<noteq> [] \<and>
               arg_password cfg = JStr pw \<and> pw \<noteq> [])
      \<longrightarrow> (\<exists>cl. PiKVMClient_new P cfg w = (Inr cl, w)))"
proof (intro conjI impI)
  assume "arg_host cfg = JUndefined \<or> arg_host cfg = JStr [] \<or>
    arg_username cfg = JUndefined \<or> arg_username cfg = JStr [] \<or>
    arg_password cfg = JUndefined \<or> arg_password cfg = JStr []"
  then have "\<not> truthy (arg_host cfg) \<or> \<not> truthy (arg_username cfg) \<or> \<not> truthy (arg_password cfg)"
    by auto
  then show "PiKVMClient_new P cfg w = (Inl (Error ''host, username, and password are required''), w)"
    by (rule constructor_throws)
next
  assume "\<exists>h u pw. arg_host cfg = JStr h \<and> h \<noteq> [] \<and> arg_username cfg = JStr u \<and> u \<noteq> [] \<and>
               arg_password cfg = JStr pw \<and> pw \<noteq> []"
  then have "truthy (arg_host cfg)" "truthy (arg_username cfg)" "truthy (arg_password cfg)"
    by auto
  then show "\<exists>cl. PiKVMClient_new P cfg w = (Inr cl, w)"
    using constructor_builds [of cfg P w] by blast
qed

theorem constructor_requires_credentials_witness:
  "PiKVMClient_new (stub_platform (Response 200 [])) (stub_config\<lparr>arg_password := JStr []\<rparr>) []
     = (Inl (Error ''host, username, and password are required''), []) \<and>
   PiKVMClient_new (stub_platform (Response 200 [])) (stub_config\<lparr>arg_host := JUndefined\<rparr>) []
     = (Inl (Error ''host, username, and password are required''), []) \<and>
   (\<exists>cl. PiKVMClient_new (stub_platform (Response 200 [])) stub_config [] = (Inr cl, []))"
  using constructor_requires_credentials
          [of "stub_config\<lparr>arg_password := JStr []\<rparr>" "stub_platform (Response 200 [])" "[]"]
        constructor_requires_credentials
          [of "stub_config\<lparr>arg_host := JUndefined\<rparr>" "stub_platform (Response 200 [])" "[]"]
        constructor_requires_credentials [of stub_config "stub_platform (Response 200 [])" "[]"]
  by (simp add: stub_config_def)

text \<open>
  Claim C5, as the specification states it, fails for an explicit port that is falsy:
  with \<^verbatim>\<open>port: 0\<close> (and \<^verbatim>\<open>secure\<close> true) the stored port is 443, not 0.
\<close>

theorem explicit_port_zero_counterexample:
  "effective_port (PiKVMClient_new (stub_platform (Response 200 []))
                     (stub_config\<lparr>arg_port := JNum (Fin 0)\<rparr>) [])
     = Some (JNum (Fin 443)) \<and>
   effective_port (PiKVMClient_new (stub_platform (Response 200 []))
                     (stub_config\<lparr>arg_port := JNum (Fin 0)\<rparr>) [])
     \<noteq> Some (JNum (Fin 0))"
  by (simp add: effective_port_def PiKVMClient_new_def stub_config_def js_or_def Let_def)

text \<open>
  Claim C5, amended. With \<^verbatim>\<open>port\<close> unset, the stored port is 443 when \<^verbatim>\<open>secure\<close> is
  unset or true and 80 when \<^verbatim>\<open>secure\<close> is false. A supplied port overrides the default
  whenever it is truthy (any number other than 0 and NaN); a supplied port that is falsy
  is treated like an unset one, and the default derived from \<^verbatim>\<open>secure\<close> is stored.
\<close>

theorem effective_port_default:
  assumes "truthy (arg_host cfg)" and "truthy (arg_username cfg)" and "truthy (arg_password cfg)"
  shows "(arg_port cfg = JUndefined \<and> (arg_secure cfg = JUndefined \<or> arg_secure cfg = JBool True)
            \<longrightarrow> effective_port (PiKVMClient_new P cfg w) = Some (JNum (Fin 443))) \<and>
         (arg_port cfg = JUndefined \<and> arg_secure cfg = JBool False
            \<longrightarrow> effective_port (PiKVMClient_new P cfg w) = Some (JNum (Fin 80))) \<and>
         (truthy (arg_port cfg)
            \<longrightarrow> effective_port (PiKVMClient_new P cfg w) = Some (arg_port cfg)) \<and>
         (\<not> truthy (arg_port cfg)
            \<longrightarrow> effective_port (PiKVMClient_new P cfg w) =
                 Some (if arg_secure cfg = JBool False then JNum (Fin 80) else JNum (Fin 443)))"
  using constructor_builds [OF assms, of P w] by (auto simp add: effective_port_def)

theorem effective_port_default_witness:
  "effective_port (PiKVMClient_new (stub_platform (Response 200 [])) stub_config [])
     = Some (JNum (Fin 443)) \<and>
   effective_port (PiKVMClient_new (stub_platform (Response 200 []))
                     (stub_config\<lparr>arg_secure := JBool False\<rparr>) [])
     = Some (JNum (Fin 80)) \<and>
   effective_port (PiKVMClient_new (stub_platform (Response 200 []))
                     (stub_config\<lparr>arg_port := JNum (Fin 8443)\<rparr>) [])
     = Some (JNum (Fin 8443)) \<and>
   effective_port (PiKVMClient_new (stub_platform (Response 200 []))
                     (stub_config\<lparr>arg_port := JNum (Fin 0), arg_secure := JBool False\<rparr>) [])
     = Some (JNum (Fin 80))"
  using effective_port_default [of stub_config "stub_platform (Response 200 [])" "[]"]
        effective_port_default [of "stub_config\<lparr>arg_secure := JBool False\<rparr>"
          "stub_platform (Response 200 [])" "[]"]
        effective_port_default [of "stub_config\<lparr>arg_port := JNum (Fin 8443)\<rparr>"
          "stub_platform (Response 200 [])" "[]"]
        effective_port_default [of "stub_config\<lparr>arg_port := JNum (Fin 0), arg_secure := JBool False\<rparr>"
          "stub_platform (Response 200 [])" "[]"]
  by (simp add: stub_config_def)

text \<open>
  Claim C10. The constructor treats \<^verbatim>\<open>secure\<close> as true for every value other than the
  boolean \<^verbatim>\<open>false\<close> (\<^verbatim>\<open>undefined\<close>, \<^verbatim>\<open>null\<close>, \<^verbatim>\<open>0\<close>, the string \<^verbatim>\<open>'false'\<close>, ...):
  the client stores \<^verbatim>\<open>secure = true\<close>, every request it builds goes through the HTTPS
  module, and the default port is 443. Only \<^verbatim>\<open>secure: false\<close> gives a plaintext HTTP
  client, with default port 80.
\<close>

theorem secure_unless_false:
  assumes "truthy (arg_host cfg)" and "truthy (arg_username cfg)" and "truthy (arg_password cfg)"
  shows "\<exists>cl. PiKVMClient_new P cfg w = (Inr cl, w) \<and>
           (arg_secure cfg \<noteq> JBool False \<longrightarrow>
              cfg_secure (config cl) \<and> (\<forall>m p b. tls (make_request P cl m p b)) \<and>
              (arg_port cfg = JUndefined \<longrightarrow> cfg_port (config cl) = JNum (Fin 443))) \<and>
           (arg_secure cfg = JBool False \<longrightarrow>
              \<not> cfg_secure (config cl) \<and> (\<forall>m p b. \<not> tls (make_request P cl m p b)) \<and>
              (arg_port cfg = JUndefined \<longrightarrow> cfg_port (config cl) = JNum (Fin 80)))"
  using constructor_builds [OF assms, of P w] by (simp add: make_request_def)

theorem secure_unless_false_witness:
  "(\<exists>cl. PiKVMClient_new (stub_platform (Response 200 [])) (stub_config\<lparr>arg_secure := JUndefined\<rparr>) []
            = (Inr cl, []) \<and> cfg_secure (config cl) \<and> cfg_port (config cl) = JNum (Fin 443)) \<and>
   (\<exists>cl. PiKVMClient_new (stub_platform (Response 200 [])) (stub_config\<lparr>arg_secure := JNull\<rparr>) []
            = (Inr cl, []) \<and> cfg_secure (config cl) \<and> cfg_port (config cl) = JNum (Fin 443)) \<and>
   (\<exists>cl. PiKVMClient_new (stub_platform (Response 200 [])) (stub_config\<lparr>arg_secure := JNum (Fin 0)\<rparr>) []
            = (Inr cl, []) \<and> cfg_secure (config cl) \<and> cfg_port (config cl) = JNum (Fin 443)) \<and>
   (\<exists>cl. PiKVMClient_new (stub_platform (Response 200 [])) (stub_config\<lparr>arg_secure := JStr ''false''\<rparr>) []
            = (Inr cl, []) \<and> cfg_secure (config cl) \<and> cfg_port (config cl) = JNum (Fin 443)) \<and>
   (\<exists>cl. PiKVMClient_new (stub_platform (Response 200 [])) (stub_config\<lparr>arg_secure := JBool False\<rparr>) []
            = (Inr cl, []) \<and> \<not> cfg_secure (config cl) \<and> cfg_port (config cl) = JNum (Fin 80))"
  using secure_unless_false [of "stub_config\<lparr>arg_secure := JUndefined\<rparr>" "stub_platform (Response 200 [])" "[]"]
        secure_unless_false [of "stub_config\<lparr>arg_secure := JNull\<rparr>" "stub_platform (Response 200 [])" "[]"]
        secure_unless_false [of "stub_config\<lparr>arg_secure := JNum (Fin 0)\<rparr>" "stub_platform (Response 200 [])" "[]"]
        secure_unless_false [of "stub_config\<lparr>arg_secure := JStr ''false''\<rparr>" "stub_platform (Response 200 [])" "[]"]
        secure_unless_false [of "stub_config\<lparr>arg_secure := JBool False\<rparr>" "stub_platform (Response 200 [])" "[]"]
  by (simp add: stub_config_def) blast

subsection \<open>Power buttons\<close>

text \<open>
  Claim C6. \<^verbatim>\<open>powerOn()\<close> and \<^verbatim>\<open>powerOff()\<close> are the same operation for every client,
  runtime and trace: the same result and the same single request, a POST to
  \<^verbatim>\<open>/api/atx/click?button=power&wait=1\<close> with body \<^verbatim>\<open>{}\<close>, equal in every component.
\<close>

theorem powerOn_powerOff_same:
  "powerOn P c w = powerOff P c w \<and>
   issues_one w (powerOn P c w) ''POST'' ''/api/atx/click?button=power&wait=1''
     [JSON_stringify P (JObj [])] \<and>
   issues_one w (powerOff P c w) ''POST'' ''/api/atx/click?button=power&wait=1''
     [JSON_stringify P (JObj [])] \<and>
   snd (powerOn P c w) =
     w @ [make_request P c ''POST'' ''/api/atx/click?button=power&wait=1'' (JObj [])]"
proof -
  have same: "powerOn P c w = powerOff P c w"
    by (simp only: powerOn_def powerOff_def)
  have one: "issues_one w (powerOn P c w) ''POST'' ''/api/atx/click?button=power&wait=1''
     [JSON_stringify P (JObj [])]"
    unfolding powerOn_def
    using issues_one_click [of w P c "JStr ATXButton_POWER" JUndefined]
    by (simp add: js_to_string_def ATXButton_POWER_def)
  have req: "snd (powerOn P c w) =
     w @ [make_request P c ''POST'' ''/api/atx/click?button=power&wait=1'' (JObj [])]"
    by (simp add: powerOn_def clickATXButton_def param_default_def request_wire js_to_string_def
          ATXButton_POWER_def)
  from same one req show ?thesis by simp
qed

theorem powerOn_powerOff_same_witness:
  "powerOn (stub_platform (Response 200 [''{}''])) stub_client []
     = powerOff (stub_platform (Response 200 [''{}''])) stub_client [] \<and>
   issues_one [] (powerOff (stub_platform (Response 200 [''{}''])) stub_client [])
     ''POST'' ''/api/atx/click?button=power&wait=1'' [''{}'']"
  using powerOn_powerOff_same [of "stub_platform (Response 200 [''{}''])" stub_client "[]"]
  by (simp add: stub_platform_def)

text \<open>
  Claim C7. \<^verbatim>\<open>clickATXButton(button, wait)\<close> writes the wait flag into the query string as
  \<^verbatim>\<open>1\<close> when \<^verbatim>\<open>wait\<close> is true and as \<^verbatim>\<open>0\<close> when it is false, and an omitted \<^verbatim>\<open>wait\<close>
  defaults to true and gives \<^verbatim>\<open>wait=1\<close>.
\<close>

theorem click_wait_flag:
  "issues_one w (clickATXButton P c (JStr b) (JBool True) w) ''POST''
     (''/api/atx/click?button='' @ b @ ''&wait=1'') [JSON_stringify P (JObj [])] \<and>
   issues_one w (clickATXButton P c (JStr b) (JBool False) w) ''POST''
     (''/api/atx/click?button='' @ b @ ''&wait=0'') [JSON_stringify P (JObj [])] \<and>
   issues_one w (clickATXButton P c (JStr b) JUndefined w) ''POST''
     (''/api/atx/click?button='' @ b @ ''&wait=1'') [JSON_stringify P (JObj [])]"
  using issues_one_click [of w P c "JStr b" "JBool True"]
        issues_one_click [of w P c "JStr b" "JBool False"]
        issues_one_click [of w P c "JStr b" JUndefined]
  by (simp add: js_to_string_def)

theorem click_wait_flag_witness:
  "issues_one [] (clickATXButton (stub_platform (Response 200 [''{}''])) stub_client
                    (JStr ''power'') (JBool False) [])
     ''POST'' ''/api/atx/click?button=power&wait=0'' [''{}''] \<and>
   issues_one [] (clickATXButton (stub_platform (Response 200 [''{}''])) stub_client
                    (JStr ''reset'') JUndefined [])
     ''POST'' ''/api/atx/click?button=reset&wait=1'' [''{}'']"
  using click_wait_flag [of "[]" "stub_platform (Response 200 [''{}''])" stub_client "''power''"]
        click_wait_flag [of "[]" "stub_platform (Response 200 [''{}''])" stub_client "''reset''"]
  by (simp add: stub_platform_def)

subsection \<open>Mass-storage images\<close>

text \<open>
  Claim C9. \<^verbatim>\<open>writeMSDImage(image, data)\<close> of the TypeScript source rejects for every pair
  of arguments, every client and every remote state, with an error whose message says
  \<^verbatim>\<open>not implemented\<close>, and it adds no request to the wire.
\<close>

theorem writeMSDImage_not_implemented:
  "\<exists>msg. writeMSDImage P c img data w = (Inl (Error msg), w) \<and>
         msg = ''MSD image upload not implemented - use HTTP multipart/form-data directly'' \<and>
         sublist ''not implemented'' msg"
proof -
  have "sublist ''not implemented''
          (''MSD image upload '' @ ''not implemented'' @ '' - use HTTP multipart/form-data directly'')"
    by (rule sublist_appendI)
  then show ?thesis by (simp add: writeMSDImage_def)
qed

theorem writeMSDImage_not_implemented_witness:
  "fst (writeMSDImage (stub_platform (Response 200 [''{}''])) stub_client (JStr ''debian.iso'')
          (JStr ''data'') []) =
     Inl (Error ''MSD image upload not implemented - use HTTP multipart/form-data directly'') \<and>
   snd (writeMSDImage (stub_platform (Response 200 [''{}''])) stub_client (JStr ''debian.iso'')
          (JStr ''data'') []) = []"
  using writeMSDImage_not_implemented [of "stub_platform (Response 200 [''{}''])" stub_client
          "JStr ''debian.iso''" "JStr ''data''" "[]"]
  by auto



end
